theory Spec2Isabelle
  imports Complex_Main
begin

section \<open>Numbers rendered as text\<close>

text \<open>
  The sources turn non-negative integers into text in three places:
  \<^verbatim>\<open>Date.now().toString()\<close> (the id of a new car), the template
  \<^verbatim>\<open>`Angle ${i + 1}`\<close> (the label of a slot beyond the photo configuration) and
  \<^verbatim>\<open>totalScore.toFixed(0)\<close>, \<^verbatim>\<open>${damageCount}/${totalImages}\<close> (hints and summaries).
  All of them print the decimal digits of a non-negative integer.
\<close>

definition digit_char :: "nat \<Rightarrow> char" where
  "digit_char d = ''0123456789'' ! d"

function toString :: "nat \<Rightarrow> string" where
  "toString n = (if n < 10 then [digit_char n] else toString (n div 10) @ [digit_char (n mod 10)])"
  by pat_completeness auto
termination
  by (relation "measure (\<lambda>n. n)") auto

declare toString.simps [simp del]

section \<open>The repository of cars (frontend/contexts/cars-context.tsx)\<close>

datatype Status = pending_photos | completed | analyzed

record InspectionReport =
  stage :: nat
  timestamp :: nat
  results :: string
  comparison :: "string option"
  photos :: "string list"

record Car =
  id :: string
  make_c :: string
  model :: string
  registrationNumber :: string
  photos :: "string list"
  analysisResults :: "string option"
  reports :: "InspectionReport list option"
  status :: Status

text \<open>
  The field \<^verbatim>\<open>make\<close> is \<open>make_c\<close> here: the record package reserves the name \<open>make\<close>.
  The argument of \<^verbatim>\<open>addCar\<close> has type \<^verbatim>\<open>Omit<Car, 'id' | 'status' | 'photos'>\<close>: the
  three business fields and the two optional fields of \<^verbatim>\<open>Car\<close>.
\<close>

record CarData =
  make_c :: string
  model :: string
  registrationNumber :: string
  analysisResults :: "string option"
  reports :: "InspectionReport list option"

text \<open>
  \<^verbatim>\<open>car.reports || []\<close>: an absent list reads as the empty one (an array, even an
  empty one, is truthy).
\<close>

definition existingReports :: "Car \<Rightarrow> InspectionReport list" where
  "existingReports car = (case Car.reports car of None \<Rightarrow> [] | Some rs \<Rightarrow> rs)"

text \<open>
  Every operation hands a function \<^verbatim>\<open>prev => ...\<close> to \<^verbatim>\<open>setCars\<close>; the model is that
  function, applied to the collection. \<^verbatim>\<open>Date.now()\<close> is read from the clock, so it is
  an argument (\<open>now\<close>, milliseconds). \<^verbatim>\<open>saveAnalysis\<close> reads the clock inside its updater,
  once for each record with the id; the model takes one reading for the call, which
  differs from the program only in the \<open>timestamp\<close> of the new reports when several records
  share the id and the clock ticks between them. In the object literal of \<^verbatim>\<open>addCar\<close> the spread
  \<^verbatim>\<open>...carData\<close> comes after \<^verbatim>\<open>id\<close> and before \<^verbatim>\<open>photos\<close>, \<^verbatim>\<open>status\<close> and \<^verbatim>\<open>reports\<close>,
  so the \<^verbatim>\<open>reports\<close> of the argument are overwritten and its \<^verbatim>\<open>analysisResults\<close> are kept.
\<close>

definition newCar :: "nat \<Rightarrow> CarData \<Rightarrow> Car" where
  "newCar now carData =
     \<lparr> Car.id = toString now,
       Car.make_c = CarData.make_c carData,
       Car.model = CarData.model carData,
       Car.registrationNumber = CarData.registrationNumber carData,
       Car.photos = [],
       Car.analysisResults = CarData.analysisResults carData,
       Car.reports = Some [],
       Car.status = pending_photos \<rparr>"

definition addCar :: "nat \<Rightarrow> CarData \<Rightarrow> Car list \<Rightarrow> string \<times> Car list" where
  "addCar now carData prev = (Car.id (newCar now carData), prev @ [newCar now carData])"

definition updateCarPhotos :: "string \<Rightarrow> string list \<Rightarrow> Car list \<Rightarrow> Car list" where
  "updateCarPhotos i ps prev =
     map (\<lambda>car. if Car.id car = i then car\<lparr> Car.photos := ps, Car.status := completed \<rparr> else car) prev"

definition newReport :: "nat \<Rightarrow> string \<Rightarrow> Car \<Rightarrow> InspectionReport" where
  "newReport now res car =
     \<lparr> stage = length (existingReports car) + 1,
       timestamp = now,
       results = res,
       comparison = None,
       InspectionReport.photos = Car.photos car \<rparr>"

definition saveAnalysis :: "nat \<Rightarrow> string \<Rightarrow> string \<Rightarrow> Car list \<Rightarrow> Car list" where
  "saveAnalysis now i res prev =
     map (\<lambda>car.
       if Car.id car = i then
         car\<lparr> Car.analysisResults := Some res,
              Car.status := analyzed,
              Car.reports := Some (existingReports car @ [newReport now res car]) \<rparr>
       else car) prev"

definition updateLatestReportComparison :: "string \<Rightarrow> string \<Rightarrow> Car list \<Rightarrow> Car list" where
  "updateLatestReportComparison i cmp prev =
     map (\<lambda>car.
       (case Car.reports car of
          None \<Rightarrow> car
        | Some rs \<Rightarrow>
            if Car.id car = i \<and> length rs > 0 then
              (let lastIndex = length rs - 1;
                   newReports = rs[lastIndex := (rs ! lastIndex)\<lparr> comparison := Some cmp \<rparr>]
               in car\<lparr> Car.reports := Some newReports \<rparr>)
            else car)) prev"

definition clearAllCars :: "Car list \<Rightarrow> Car list" where
  "clearAllCars prev = []"

definition removeCar :: "string \<Rightarrow> Car list \<Rightarrow> Car list" where
  "removeCar i prev = filter (\<lambda>car. Car.id car \<noteq> i) prev"

definition getCar :: "string \<Rightarrow> Car list \<Rightarrow> Car option" where
  "getCar i cars = find (\<lambda>c. Car.id c = i) cars"

text \<open>
  The operations are \<^verbatim>\<open>async\<close> functions: a caller sees a promise that is either
  fulfilled or rejected with an error. No operation of the repository contains a
  \<^verbatim>\<open>throw\<close>, and \<^verbatim>\<open>setCars\<close> with a pure updater does not raise, so the promise of
  \<^verbatim>\<open>saveAnalysis\<close> is always fulfilled (with no value); the call is the pair of that
  outcome and the new collection.
\<close>

datatype RepoError = NotFound

definition saveAnalysis_call ::
  "nat \<Rightarrow> string \<Rightarrow> string \<Rightarrow> Car list \<Rightarrow> (RepoError + unit) \<times> Car list" where
  "saveAnalysis_call now i res prev = (Inr (), saveAnalysis now i res prev)"

text \<open>
  A run of the repository: the operations a client may call, in the order in which
  their updaters are applied, starting from the empty collection of \<^verbatim>\<open>useState<Car[]>([])\<close>.
\<close>

datatype Op =
    AddCar nat CarData
  | UpdateCarPhotos string "string list"
  | SaveAnalysis nat string string
  | UpdateLatestReportComparison string string
  | RemoveCar string
  | ClearAllCars

fun apply_op :: "Op \<Rightarrow> Car list \<Rightarrow> Car list" where
  "apply_op (AddCar now carData) prev = snd (addCar now carData prev)"
| "apply_op (UpdateCarPhotos i ps) prev = updateCarPhotos i ps prev"
| "apply_op (SaveAnalysis now i res) prev = saveAnalysis now i res prev"
| "apply_op (UpdateLatestReportComparison i cmp) prev = updateLatestReportComparison i cmp prev"
| "apply_op (RemoveCar i) prev = removeCar i prev"
| "apply_op ClearAllCars prev = clearAllCars prev"

fun run :: "Op list \<Rightarrow> Car list \<Rightarrow> Car list" where
  "run [] cars = cars"
| "run (op # ops) cars = run ops (apply_op op cars)"

section \<open>Analysis results and the damage report (utils/geminiAnalysis, in unnamed/part_006)\<close>

datatype Severity = none | minor | moderate | severe

text \<open>In the program a severity is one of four strings; \<open>severity_text\<close> is that string.\<close>

fun severity_text :: "Severity \<Rightarrow> string" where
  "severity_text none = ''none''"
| "severity_text minor = ''minor''"
| "severity_text moderate = ''moderate''"
| "severity_text severe = ''severe''"

record GeminiAnalysisResult =
  hasDamage :: bool
  damageType :: string
  severity :: Severity
  description :: string
  recommendations :: "string list"
  imageComplete :: bool
  completenessNote :: "string option"

fun severityOrder :: "Severity \<Rightarrow> nat" where
  "severityOrder none = 0"
| "severityOrder minor = 1"
| "severityOrder moderate = 2"
| "severityOrder severe = 3"

text \<open>
  \<^verbatim>\<open>Math.round(sm / n)\<close> for integers \<open>sm \<ge> 0\<close> and \<open>n > 0\<close>: the nearest integer,
  a half rounded up, which is \<open>(2 * sm + n) div (2 * n)\<close>.
\<close>

definition roundDiv :: "nat \<Rightarrow> nat \<Rightarrow> nat" where
  "roundDiv sm n = (2 * sm + n) div (2 * n)"

record DamageReport =
  totalImages :: nat
  damageCount :: nat
  averageSeverity :: string
  summary :: string

definition generateDamageReport :: "GeminiAnalysisResult list \<Rightarrow> DamageReport" where
  "generateDamageReport rs =
     (let totalImages = length rs;
          damageCount = length (filter hasDamage rs);
          severities = map severity (filter hasDamage rs);
          averageSeverity =
            (if length severities > 0 then
               (case find (\<lambda>k. severityOrder k =
                            roundDiv (foldl (\<lambda>sm s. sm + severityOrder s) 0 severities)
                                     (length severities))
                          [none, minor, moderate, severe] of
                  Some k \<Rightarrow> severity_text k
                | None \<Rightarrow> ''minor'')
             else ''none'');
          summary =
            (if damageCount = 0 then ''No damage detected in any photos''
             else ''Damage detected in '' @ toString damageCount @ ''/'' @ toString totalImages
                  @ '' photos. Average severity: '' @ averageSeverity)
      in \<lparr> totalImages = totalImages, damageCount = damageCount,
           averageSeverity = averageSeverity, summary = summary \<rparr>)"

subsection \<open>The three lists of the report screen (frontend/app/report.tsx)\<close>

text \<open>\<^verbatim>\<open>results.map((r, i) => ({ ...r, index: i }))\<close>: each result with its position.\<close>

definition indexed :: "GeminiAnalysisResult list \<Rightarrow> (GeminiAnalysisResult \<times> nat) list" where
  "indexed rs = zip rs [0..<length rs]"

definition rejectedPhotos :: "GeminiAnalysisResult list \<Rightarrow> (GeminiAnalysisResult \<times> nat) list" where
  "rejectedPhotos rs = filter (\<lambda>(r, i). \<not> imageComplete r) (indexed rs)"

definition damagedPhotos :: "GeminiAnalysisResult list \<Rightarrow> (GeminiAnalysisResult \<times> nat) list" where
  "damagedPhotos rs = filter (\<lambda>(r, i). imageComplete r \<and> hasDamage r) (indexed rs)"

definition cleanPhotos :: "GeminiAnalysisResult list \<Rightarrow> (GeminiAnalysisResult \<times> nat) list" where
  "cleanPhotos rs = filter (\<lambda>(r, i). imageComplete r \<and> \<not> hasDamage r) (indexed rs)"

section \<open>The photo configuration (utils/carDetection, in frontend/app/report.tsx)\<close>

datatype CarAngle = Front | Rear | Side

record PhotoConfig =
  label :: string
  expectedAngle :: CarAngle

definition PHOTO_CONFIG :: "PhotoConfig list" where
  "PHOTO_CONFIG =
     [ \<lparr> label = ''Front'', expectedAngle = Front \<rparr>,
       \<lparr> label = ''Back'', expectedAngle = Rear \<rparr>,
       \<lparr> label = ''Left Side'', expectedAngle = Side \<rparr>,
       \<lparr> label = ''Right Side'', expectedAngle = Side \<rparr>,
       \<lparr> label = ''Interior 1'', expectedAngle = Front \<rparr>,
       \<lparr> label = ''Interior 2'', expectedAngle = Front \<rparr>,
       \<lparr> label = ''Dashboard'', expectedAngle = Front \<rparr>,
       \<lparr> label = ''Engine'', expectedAngle = Front \<rparr>,
       \<lparr> label = ''Trunk'', expectedAngle = Rear \<rparr> ]"

section \<open>The stage differ (utils/comparisonReport, in unnamed/part_005)\<close>

datatype ChangeType = added | removed | changed | unchanged

text \<open>\<^verbatim>\<open>oldValue: any\<close> holds \<^verbatim>\<open>null\<close> or a string.\<close>

datatype JsValue = Null | Str string

record FieldChange =
  field :: string
  oldValue :: JsValue
  newValue :: JsValue
  type :: ChangeType

record AngleDiff =
  label :: string
  index :: nat
  hasChanges :: bool
  changes :: "FieldChange list"

record StructuredDiffSummary =
  summary :: string
  angles :: "AngleDiff list"
  overallConfirm :: bool

text \<open>Reading an array at an index: \<^verbatim>\<open>undefined\<close> beyond its end.\<close>

definition elemAt :: "'a list \<Rightarrow> nat \<Rightarrow> 'a option" where
  "elemAt xs i = (if i < length xs then Some (xs ! i) else None)"

text \<open>\<^verbatim>\<open>PHOTO_CONFIG[i]?.label || `Angle ${i + 1}`\<close>\<close>

definition slotLabel :: "nat \<Rightarrow> string" where
  "slotLabel i =
     (case elemAt PHOTO_CONFIG i of
        Some c \<Rightarrow> if PhotoConfig.label c \<noteq> [] then PhotoConfig.label c
                  else ''Angle '' @ toString (i + 1)
      | None \<Rightarrow> ''Angle '' @ toString (i + 1))"

definition yesNo :: "bool \<Rightarrow> string" where
  "yesNo b = (if b then ''Yes'' else ''No'')"

text \<open>The body of the loop for one slot: the changes pushed to \<^verbatim>\<open>angleChanges\<close>.\<close>

fun angleChanges ::
  "GeminiAnalysisResult option \<Rightarrow> GeminiAnalysisResult option \<Rightarrow> FieldChange list" where
  "angleChanges None (Some newItem) =
     [\<lparr> field = ''Record'', oldValue = Null, newValue = Str ''Present'', type = added \<rparr>]"
| "angleChanges (Some oldItem) None =
     [\<lparr> field = ''Record'', oldValue = Str ''Present'', newValue = Null, type = removed \<rparr>]"
| "angleChanges (Some oldItem) (Some newItem) =
     (if severity oldItem \<noteq> severity newItem then
        [\<lparr> field = ''Severity'',
           oldValue = Str (severity_text (severity oldItem)),
           newValue = Str (severity_text (severity newItem)), type = changed \<rparr>]
      else [])
     @ (if damageType oldItem \<noteq> damageType newItem then
        [\<lparr> field = ''Damage Type'',
           oldValue = Str (damageType oldItem),
           newValue = Str (damageType newItem), type = changed \<rparr>]
      else [])
     @ (if description oldItem \<noteq> description newItem then
        [\<lparr> field = ''Description'',
           oldValue = Str (description oldItem),
           newValue = Str (description newItem), type = changed \<rparr>]
      else [])
     @ (if hasDamage oldItem \<noteq> hasDamage newItem then
        [\<lparr> field = ''Has Damage'',
           oldValue = Str (yesNo (hasDamage oldItem)),
           newValue = Str (yesNo (hasDamage newItem)), type = changed \<rparr>]
      else [])"
| "angleChanges None None = []"

definition angleDiffAt ::
  "GeminiAnalysisResult list \<Rightarrow> GeminiAnalysisResult list \<Rightarrow> nat \<Rightarrow> AngleDiff" where
  "angleDiffAt oldResults newResults i =
     (let cs = angleChanges (elemAt oldResults i) (elemAt newResults i)
      in \<lparr> label = slotLabel i, index = i, hasChanges = (length cs > 0), changes = cs \<rparr>)"

text \<open>
  The \<^verbatim>\<open>for\<close> loop, with its two variables \<^verbatim>\<open>anglesDiff\<close> and \<^verbatim>\<open>differencesFound\<close>
  as the state.
\<close>

function compareLoop ::
  "GeminiAnalysisResult list \<Rightarrow> GeminiAnalysisResult list \<Rightarrow> nat \<Rightarrow> nat \<Rightarrow>
   AngleDiff list \<times> bool \<Rightarrow> AngleDiff list \<times> bool" where
  "compareLoop oldResults newResults maxLen i (anglesDiff, differencesFound) =
     (if i < maxLen then
        (let a = angleDiffAt oldResults newResults i
         in compareLoop oldResults newResults maxLen (i + 1)
              (anglesDiff @ [a],
               if length (changes a) > 0 then True else differencesFound))
      else (anglesDiff, differencesFound))"
  by pat_completeness auto
termination
  by (relation "measure (\<lambda>(oldResults, newResults, maxLen, i, st). maxLen - i)") auto

declare compareLoop.simps [simp del]

definition compareStructuredReports ::
  "GeminiAnalysisResult list \<Rightarrow> GeminiAnalysisResult list \<Rightarrow> StructuredDiffSummary" where
  "compareStructuredReports oldResults newResults =
     (let maxLen = max (length oldResults) (length newResults);
          (anglesDiff, differencesFound) = compareLoop oldResults newResults maxLen 0 ([], False)
      in \<lparr> summary = (if differencesFound then ''Differences detected between reports.''
                       else ''No significant structural differences.''),
           angles = filter hasChanges anglesDiff,
           overallConfirm = differencesFound \<rparr>)"

section \<open>Image analysis (utils/imageAnalysis, in unnamed/part_006)\<close>

text \<open>
  \<^verbatim>\<open>Math.random()\<close> is a draw from the interval from 0 (included) to 1 (excluded); each
  draw is an argument of the function that makes it, a rational number. The arithmetic
  on brightness is exact here where the program rounds to a double; the thresholds
  compared with are a tenth or more apart, so the branch taken can differ from the
  program's only for a draw within rounding distance of a threshold, and the theorems
  below hold for every branch.

  The field \<^verbatim>\<open>size\<close> of the metadata is \<open>size_m\<close> here. \<^verbatim>\<open>getImageMetadata\<close> returns
  fixed values and raises nothing, so the \<^verbatim>\<open>catch\<close> blocks of the three analyses are
  never entered.
\<close>

record ImageMetadata =
  width :: nat
  height :: nat
  size_m :: nat
  mimeType :: string

definition getImageMetadata :: "string \<Rightarrow> ImageMetadata" where
  "getImageMetadata imageUri =
     \<lparr> width = 1080, height = 1920, size_m = 1500000, mimeType = ''image/jpeg'' \<rparr>"

datatype Resolution = low | medium | high

record QualityDetails =
  resolution :: Resolution
  hasContent :: bool
  sizeIndicator :: string

record ImageQuality =
  isRealPhoto :: bool
  quality :: int
  details :: QualityDetails

definition analyzeImageQuality :: "string \<Rightarrow> ImageQuality" where
  "analyzeImageQuality imageUri =
     (let metadata = getImageMetadata imageUri;
          totalPixels = width metadata * height metadata;
          megapixels = (of_nat totalPixels :: rat) / 1000000;
          (quality1, resolution1, hasContent1, sizeIndicator1) =
            (if megapixels < 1 / 2 then (70 - 20, low, False, ''too_small'')
             else if megapixels > 20 then (70 + 10, high, True, ''normal'')
             else if megapixels > 2 then (70 + 5, high, True, ''normal'')
             else (70, medium, True, ''normal''));
          (quality2, hasContent2, sizeIndicator2) =
            (if size_m metadata < 20 then (quality1 - 50, False, ''too_small_file'')
             else if size_m metadata > 10000 then (quality1 + 5, hasContent1, sizeIndicator1)
             else if size_m metadata > 200 \<and> size_m metadata < 10000
                  then (quality1 + 10, hasContent1, ''typical'')
             else (quality1, hasContent1, sizeIndicator1));
          isRealPhoto = (hasContent2 \<and> quality2 > 40)
      in \<lparr> isRealPhoto = isRealPhoto,
           quality = min 100 (max 40 quality2),
           details = \<lparr> resolution = resolution1, hasContent = hasContent2,
                       sizeIndicator = sizeIndicator2 \<rparr> \<rparr>)"

record BrightnessAnalysis =
  brightness :: rat
  isTooDark :: bool
  isTooLight :: bool

definition analyzeBrightness :: "string \<Rightarrow> rat \<Rightarrow> BrightnessAnalysis" where
  "analyzeBrightness imageUri random =
     (let b = 3 / 10 + random * (4 / 10)
      in \<lparr> brightness = b, isTooDark = (b < 25 / 100), isTooLight = (b > 85 / 100) \<rparr>)"

record BlurAnalysis =
  blur :: rat
  isBlurry :: bool

definition analyzeBlur :: "string \<Rightarrow> rat \<Rightarrow> BlurAnalysis" where
  "analyzeBlur imageUri random = \<lparr> blur = random, isBlurry = (random > 7 / 10) \<rparr>"

section \<open>Photo-quality heuristics (utils/carDetection, in frontend/app/report.tsx)\<close>

record FramingCheck =
  isOptimal :: bool
  hint :: string
  score :: nat

record LightingCheck =
  isOptimal :: bool
  hint :: string
  score :: nat
  brightness :: rat
  hasGlare :: bool
  hasShadows :: bool

record QualityCheck =
  isOptimal :: bool
  hint :: string
  score :: nat
  blur :: rat

record DetectionResult =
  carDetected :: bool
  angle :: "CarAngle option"
  angleScore :: nat
  framing :: "FramingCheck option"
  lighting :: "LightingCheck option"
  quality :: "QualityCheck option"
  totalScore :: nat
  isAccepted :: bool
  hint :: string

definition QUALITY_THRESHOLD :: nat where
  "QUALITY_THRESHOLD = 65"

text \<open>
  \<^verbatim>\<open>analysis.quality || 50\<close> reads a quality of 0 as 50. The local \<^verbatim>\<open>brightness\<close> of
  \<^verbatim>\<open>detectAngle\<close> is the constant 0.5.
\<close>

definition detectAngle :: "string \<Rightarrow> rat \<Rightarrow> CarAngle" where
  "detectAngle imageUri random =
     (let analysis = analyzeImageQuality imageUri;
          b = (1 / 2 :: rat);
          q = (if ImageQuality.quality analysis = 0 then 50 else ImageQuality.quality analysis)
      in if q > 70 \<and> b > 45 / 100 \<and> b < 75 / 100 then
           (if random < 1 / 2 then Front else if random < 85 / 100 then Rear else Side)
         else if q > 50 then
           (if random < 35 / 100 then Front else if random < 7 / 10 then Rear else Side)
         else
           (if random < 33 / 100 then Front else if random < 66 / 100 then Rear else Side))"

definition checkFraming :: "string \<Rightarrow> FramingCheck" where
  "checkFraming imageUri =
     (let analysis = analyzeImageQuality imageUri
      in if resolution (details analysis) = low then
           \<lparr> FramingCheck.isOptimal = False,
             FramingCheck.hint = ''Move closer to the car for better detail and clarity.'',
             FramingCheck.score = 10 \<rparr>
         else if ImageQuality.quality analysis < 50 then
           \<lparr> FramingCheck.isOptimal = False,
             FramingCheck.hint = ''Ensure the car fills most of the frame. Move closer.'',
             FramingCheck.score = 12 \<rparr>
         else
           \<lparr> FramingCheck.isOptimal = True, FramingCheck.hint = ''Framing perfect.'', FramingCheck.score = 24 \<rparr>)"

definition checkLighting :: "string \<Rightarrow> rat \<Rightarrow> LightingCheck" where
  "checkLighting imageUri random =
     (let brightAnalysis = analyzeBrightness imageUri random;
          (score1, hint1, isOptimal1, hasGlare1, hasShadows1) =
            (if isTooDark brightAnalysis then
               (8, ''Image is too dark. Move to brighter area with good light.'',
                False, False, True)
             else if isTooLight brightAnalysis then
               (8, ''Too much glare/reflection. Move away from bright light.'',
                False, True, False)
             else if BrightnessAnalysis.brightness brightAnalysis < 4 / 10 then
               (12, ''Lighting too low. Take photo in daylight or well-lit area.'',
                False, False, True)
             else if BrightnessAnalysis.brightness brightAnalysis > 8 / 10 then
               (12, ''Too bright/overexposed. Reduce glare and shadows.'',
                False, True, False)
             else (24, ''Lighting optimal.'', True, False, False))
      in \<lparr> LightingCheck.isOptimal = isOptimal1, LightingCheck.hint = hint1, LightingCheck.score = score1,
           LightingCheck.brightness = BrightnessAnalysis.brightness brightAnalysis,
           LightingCheck.hasGlare = hasGlare1, LightingCheck.hasShadows = hasShadows1 \<rparr>)"

definition checkQuality :: "string \<Rightarrow> rat \<Rightarrow> QualityCheck" where
  "checkQuality imageUri random =
     (let blurAnalysis = analyzeBlur imageUri random;
          qualityAnalysis = analyzeImageQuality imageUri;
          (score1, hint1, isOptimal1) =
            (if isBlurry blurAnalysis then
               (5, ''Image is blurry. Hold camera steady and retake photo.'', False)
             else if BlurAnalysis.blur blurAnalysis > 1 / 2 then
               (10, ''Motion blur detected. Hold camera still when taking photo.'', False)
             else if ImageQuality.quality qualityAnalysis < 45 then
               (8, ''Image quality too low. Use higher resolution camera.'', False)
             else if ImageQuality.quality qualityAnalysis < 55 then
               (12, ''Image is not clear enough. This is not a car photo.'', False)
             else (24, ''Image quality excellent.'', True))
      in \<lparr> QualityCheck.isOptimal = isOptimal1, QualityCheck.hint = hint1, QualityCheck.score = score1,
           QualityCheck.blur = BlurAnalysis.blur blurAnalysis \<rparr>)"

fun angleNames :: "CarAngle \<Rightarrow> string" where
  "angleNames Front = ''Front''"
| "angleNames Rear = ''Back/Rear''"
| "angleNames Side = ''Side''"

text \<open>
  \<^verbatim>\<open>detectCar\<close> makes three draws: in \<^verbatim>\<open>detectAngle\<close>, in \<^verbatim>\<open>analyzeBrightness\<close> (through
  \<^verbatim>\<open>checkLighting\<close>) and in \<^verbatim>\<open>analyzeBlur\<close> (through \<^verbatim>\<open>checkQuality\<close>). The expected angle
  is optional. Each function awaited in the \<^verbatim>\<open>try\<close> block catches its own errors and
  returns a value, and nothing else in the block raises, so the \<^verbatim>\<open>catch\<close> block of
  \<^verbatim>\<open>detectCar\<close> (a fixed result with \<^verbatim>\<open>totalScore: 80\<close> and \<^verbatim>\<open>isAccepted: false\<close>) is never
  entered and is no branch of the model.
\<close>

definition detectCar ::
  "string \<Rightarrow> CarAngle option \<Rightarrow> rat \<Rightarrow> rat \<Rightarrow> rat \<Rightarrow> DetectionResult" where
  "detectCar imageUri expected randomAngle randomBrightness randomBlur =
     (let qualityAnalysis = analyzeImageQuality imageUri
      in if \<not> hasContent (details qualityAnalysis) \<or> ImageQuality.quality qualityAnalysis < 60 then
           \<lparr> carDetected = False, angle = None, angleScore = 0,
             framing = None, lighting = None, quality = None,
             totalScore = 0, isAccepted = False,
             hint = ''Photo is too unclear or not a car. Please take a clear photo of the car.'' \<rparr>
         else
           (let angle1 = detectAngle imageUri randomAngle
            in if expected \<noteq> None \<and> Some angle1 \<noteq> expected then
                 \<lparr> carDetected = False, angle = None, angleScore = 0,
                   framing = None, lighting = None, quality = None,
                   totalScore = 0, isAccepted = False,
                   hint = ''Wrong angle! Expected '' @ angleNames (the expected)
                          @ '', but detected '' @ angleNames angle1
                          @ ''. Please take a photo from the correct angle.'' \<rparr>
               else
                 (let angleScore1 = 25;
                      framing1 = checkFraming imageUri;
                      lighting1 = checkLighting imageUri randomBrightness;
                      quality1 = checkQuality imageUri randomBlur;
                      totalScore1 = angleScore1 + FramingCheck.score framing1
                                    + LightingCheck.score lighting1
                                    + QualityCheck.score quality1;
                      isAccepted1 = (totalScore1 \<ge> QUALITY_THRESHOLD);
                      hint1 =
                        (if \<not> isAccepted1 then
                           (if \<not> FramingCheck.isOptimal framing1 then FramingCheck.hint framing1
                            else if \<not> LightingCheck.isOptimal lighting1
                                 then LightingCheck.hint lighting1
                            else if \<not> QualityCheck.isOptimal quality1
                                 then QualityCheck.hint quality1
                            else ''Photo quality is too low. Score: '' @ toString totalScore1
                                 @ ''/100 (need '' @ toString QUALITY_THRESHOLD @ ''/100)'')
                         else ''Perfect! Quality Score: '' @ toString totalScore1 @ ''/100'')
                  in \<lparr> carDetected = isAccepted1, angle = Some angle1,
                       angleScore = angleScore1,
                       framing = Some framing1, lighting = Some lighting1,
                       quality = Some quality1,
                       totalScore = totalScore1, isAccepted = isAccepted1,
                       hint = hint1 \<rparr>)))"

text \<open>The score of a sub-check that was not run (the field is \<^verbatim>\<open>undefined\<close>) counts as 0.\<close>

definition framingScore :: "DetectionResult \<Rightarrow> nat" where
  "framingScore r = (case framing r of None \<Rightarrow> 0 | Some f \<Rightarrow> FramingCheck.score f)"

definition lightingScore :: "DetectionResult \<Rightarrow> nat" where
  "lightingScore r = (case lighting r of None \<Rightarrow> 0 | Some l \<Rightarrow> LightingCheck.score l)"

definition qualityScore :: "DetectionResult \<Rightarrow> nat" where
  "qualityScore r = (case DetectionResult.quality r of None \<Rightarrow> 0 | Some q \<Rightarrow> QualityCheck.score q)"

section \<open>Invariants and sample data\<close>

text \<open>
  What a record's status says about its stages: an analyzed record has a stage, and a
  record with a stage is analyzed or completed.
\<close>

definition statusInv :: "Car \<Rightarrow> bool" where
  "statusInv r =
     ((Car.status r = analyzed \<longrightarrow> length (existingReports r) > 0) \<and>
      (length (existingReports r) > 0 \<longrightarrow> Car.status r = analyzed \<or> Car.status r = completed))"

text \<open>
  The duplicate field: where a car has reports, \<^verbatim>\<open>analysisResults\<close> holds the results
  of the last one.
\<close>

definition latestResultsInv :: "Car list \<Rightarrow> bool" where
  "latestResultsInv cars =
     (\<forall>car \<in> set cars.
        existingReports car \<noteq> [] \<longrightarrow>
        Car.analysisResults car = Some (results (last (existingReports car))))"

definition toyota :: CarData where
  "toyota = \<lparr> CarData.make_c = ''Toyota'', CarData.model = ''Camry'',
               CarData.registrationNumber = ''ABC123'',
               CarData.analysisResults = None, CarData.reports = None \<rparr>"

definition honda :: CarData where
  "honda = \<lparr> CarData.make_c = ''Honda'', CarData.model = ''Civic'',
              CarData.registrationNumber = ''XYZ789'',
              CarData.analysisResults = None, CarData.reports = None \<rparr>"

text \<open>
  A car that was analysed once, and the run of the repository that uploads new photos
  for such a car without analysing them (the screen's \<^verbatim>\<open>handleSave\<close>).
\<close>

definition analysed_once :: "Car list" where
  "analysed_once =
    [\<lparr> Car.id = ''1700000000000'', Car.make_c = ''Toyota'', Car.model = ''Camry'',
       Car.registrationNumber = ''ABC123'', Car.photos = [''p1'', ''p2'', ''p3''],
       Car.analysisResults = Some ''[1]'',
       Car.reports = Some [\<lparr> stage = 1, timestamp = 1700000060000, results = ''[1]'',
                              comparison = None,
                              InspectionReport.photos = [''p1'', ''p2'', ''p3''] \<rparr>],
       Car.status = analyzed \<rparr>]"

definition reupload :: "Op list" where
  "reupload = [AddCar 1700000000000 toyota,
               UpdateCarPhotos ''1700000000000'' [''p1'', ''p2'', ''p3''],
               SaveAnalysis 1700000060000 ''1700000000000'' ''[1]'',
               UpdateCarPhotos ''1700000000000'' [''p1'', ''p2'', ''p4'']]"

text \<open>
  Analysis results: a photo without damage, a photo with a dent, and a photo that failed
  the verification of its angle while the model still reported damage on it. Two
  stages of three photos whose last slot differs.
\<close>

definition clean :: GeminiAnalysisResult where
  "clean = \<lparr> hasDamage = False, damageType = ''None'', severity = none,
              description = ''No visible damage.'', recommendations = [],
              imageComplete = True, completenessNote = None \<rparr>"

definition dented :: GeminiAnalysisResult where
  "dented = \<lparr> hasDamage = True, damageType = ''Dent'', severity = moderate,
               description = ''Dent on the door.'', recommendations = [''Visit a body shop''],
               imageComplete = True, completenessNote = None \<rparr>"

definition wrongAngle :: GeminiAnalysisResult where
  "wrongAngle = \<lparr> hasDamage = True, damageType = ''Dent'', severity = severe,
                   description = ''This looks like the rear of the car, with a large dent.'',
                   recommendations = [],
                   imageComplete = False, completenessNote = Some ''Not the front view'' \<rparr>"

definition stage1 :: "GeminiAnalysisResult list" where
  "stage1 = [clean, clean, clean]"

definition stage2 :: "GeminiAnalysisResult list" where
  "stage2 = [clean, clean, dented]"

section \<open>Evaluating the decimal rendering\<close>

lemma toString_digit: "n < 10 \<Longrightarrow> toString n = [digit_char n]"
  by (simp add: toString.simps)

lemma toString_step:
  "10 \<le> n \<Longrightarrow> toString n = toString (n div 10) @ [digit_char (n mod 10)]"
  by (subst toString.simps) simp

lemmas toString_eval = toString_digit toString_step digit_char_def

section \<open>The repository: stages and status\<close>

lemma existingReports_saveAnalysis:
  "k < length cars \<Longrightarrow> Car.id (cars ! k) = i \<Longrightarrow>
   existingReports (saveAnalysis now i res cars ! k)
     = existingReports (cars ! k) @ [newReport now res (cars ! k)]"
  by (simp add: saveAnalysis_def existingReports_def)

text \<open>
  Claim C2. For a record of the collection whose id is the argument, \<open>saveAnalysis\<close>
  appends exactly one stage to the record's stages, which are otherwise as before; the
  new stage is numbered with the previous count plus one, holds the record's photos as
  they are at the call and the results given, and the record's status becomes analyzed.
\<close>

theorem saveAnalysis_appends_one_stage:
  assumes "k < length cars" and "Car.id (cars ! k) = i"
  shows "\<exists>r. existingReports (saveAnalysis now i res cars ! k) = existingReports (cars ! k) @ [r]
            \<and> stage r = length (existingReports (cars ! k)) + 1
            \<and> InspectionReport.photos r = Car.photos (cars ! k)
            \<and> results r = res
            \<and> Car.status (saveAnalysis now i res cars ! k) = analyzed"
proof -
  let ?r = "newReport now res (cars ! k)"
  have "existingReports (saveAnalysis now i res cars ! k) = existingReports (cars ! k) @ [?r]"
    using assms by (rule existingReports_saveAnalysis)
  moreover have "stage ?r = length (existingReports (cars ! k)) + 1"
    and "InspectionReport.photos ?r = Car.photos (cars ! k)" and "results ?r = res"
    by (simp_all add: newReport_def)
  moreover have "Car.status (saveAnalysis now i res cars ! k) = analyzed"
    using assms by (simp add: saveAnalysis_def)
  ultimately show ?thesis by blast
qed

theorem saveAnalysis_appends_one_stage_witness:
  "0 < length analysed_once \<and> Car.id (analysed_once ! 0) = ''1700000000000'' \<and>
   (\<exists>r. existingReports (saveAnalysis 1700000120000 ''1700000000000'' ''[2]'' analysed_once ! 0)
          = existingReports (analysed_once ! 0) @ [r]
        \<and> stage r = 2
        \<and> InspectionReport.photos r = [''p1'', ''p2'', ''p3'']
        \<and> results r = ''[2]''
        \<and> Car.status (saveAnalysis 1700000120000 ''1700000000000'' ''[2]'' analysed_once ! 0)
            = analyzed)"
proof -
  have h1: "0 < length analysed_once" by (simp add: analysed_once_def)
  have h2: "Car.id (analysed_once ! 0) = ''1700000000000''" by (simp add: analysed_once_def)
  have e: "length (existingReports (analysed_once ! 0)) + 1 = 2"
    "Car.photos (analysed_once ! 0) = [''p1'', ''p2'', ''p3'']"
    by (simp_all add: analysed_once_def existingReports_def)
  show ?thesis
    using h1 h2 saveAnalysis_appends_one_stage [OF h1 h2, of 1700000120000 "''[2]''"]
    unfolding e by simp
qed

lemma statusInv_newCar: "statusInv (newCar now carData)"
  by (simp add: statusInv_def newCar_def existingReports_def)

lemma statusInv_apply_op:
  assumes "\<forall>r \<in> set cars. statusInv r"
  shows "\<forall>r \<in> set (apply_op op cars). statusInv r"
proof (cases op)
  case (AddCar now carData)
  then show ?thesis using assms by (auto simp: addCar_def statusInv_newCar)
next
  case (UpdateCarPhotos i ps)
  then show ?thesis using assms
    by (auto simp: updateCarPhotos_def statusInv_def existingReports_def)
next
  case (SaveAnalysis now i res)
  then show ?thesis using assms
    by (auto simp: saveAnalysis_def statusInv_def existingReports_def)
next
  case (UpdateLatestReportComparison i cmp)
  then show ?thesis using assms
    by (auto simp: updateLatestReportComparison_def statusInv_def existingReports_def Let_def
             split: option.splits)
next
  case (RemoveCar i)
  then show ?thesis using assms by (auto simp: removeCar_def)
next
  case ClearAllCars
  then show ?thesis by (simp add: clearAllCars_def)
qed

lemma statusInv_run:
  "\<forall>r \<in> set cars. statusInv r \<Longrightarrow> \<forall>r \<in> set (run ops cars). statusInv r"
proof (induction ops arbitrary: cars)
  case Nil
  then show ?case by simp
next
  case (Cons op ops)
  show ?case
    unfolding run.simps
    by (rule Cons.IH) (rule statusInv_apply_op [OF Cons.prems])
qed

lemma run_reupload:
  "run reupload [] =
    [\<lparr> Car.id = ''1700000000000'', Car.make_c = ''Toyota'', Car.model = ''Camry'',
       Car.registrationNumber = ''ABC123'', Car.photos = [''p1'', ''p2'', ''p4''],
       Car.analysisResults = Some ''[1]'',
       Car.reports = Some [\<lparr> stage = 1, timestamp = 1700000060000, results = ''[1]'',
                              comparison = None,
                              InspectionReport.photos = [''p1'', ''p2'', ''p3''] \<rparr>],
       Car.status = completed \<rparr>]"
  by (simp add: reupload_def addCar_def newCar_def toyota_def updateCarPhotos_def
        saveAnalysis_def newReport_def existingReports_def toString_eval)

text \<open>
  Claim C1, as stated, fails: after a car was analysed, \<open>updateCarPhotos\<close> sets its
  status to completed and keeps its stages. The record below is in a reachable
  collection, has one stage and is not analyzed.
\<close>

theorem status_iff_stages_counterexample:
  "hd (run reupload []) \<in> set (run reupload []) \<and>
   \<not> (Car.status (hd (run reupload [])) = analyzed \<longleftrightarrow>
      length (existingReports (hd (run reupload []))) > 0)"
  by (simp add: run_reupload existingReports_def)

text \<open>
  Claim C1, amended. In every collection reached from the empty one by the operations
  of the repository, a record with status analyzed has at least one stage, and a record
  with at least one stage has status analyzed or completed (completed when photos were
  uploaded after the last analysis).
\<close>

theorem reachable_status_stages:
  "\<forall>r \<in> set (run ops []).
     (Car.status r = analyzed \<longrightarrow> length (existingReports r) > 0) \<and>
     (length (existingReports r) > 0 \<longrightarrow> Car.status r = analyzed \<or> Car.status r = completed)"
  using statusInv_run [of "[]" ops] by (simp add: statusInv_def)

theorem reachable_status_stages_witness:
  "hd (run reupload []) \<in> set (run reupload []) \<and>
   length (existingReports (hd (run reupload []))) > 0 \<and>
   (Car.status (hd (run reupload [])) = analyzed \<or>
    Car.status (hd (run reupload [])) = completed)"
  using reachable_status_stages [of reupload] by (simp add: run_reupload existingReports_def)

section \<open>The repository: an unknown id\<close>

text \<open>
  Claim C7, as stated, fails: with an id that matches no record the call does not end
  in \<open>NotFound\<close>.
\<close>

theorem saveAnalysis_not_found_counterexample:
  "Car.id (hd analysed_once) \<noteq> ''42'' \<and> length analysed_once = 1 \<and>
   fst (saveAnalysis_call 1700000120000 ''42'' ''[2]'' analysed_once) \<noteq> Inl NotFound"
  by (simp add: analysed_once_def saveAnalysis_call_def)

text \<open>
  Claim C7, amended. For an id that matches no record of the collection, \<open>saveAnalysis\<close>
  completes without an error and leaves the collection as it was.
\<close>

theorem saveAnalysis_unknown_id_noop:
  assumes "\<forall>c \<in> set cars. Car.id c \<noteq> i"
  shows "saveAnalysis_call now i res cars = (Inr (), cars)"
proof -
  have "saveAnalysis now i res cars = map (\<lambda>car. car) cars"
    unfolding saveAnalysis_def using assms by (intro map_cong) auto
  then show ?thesis by (simp add: saveAnalysis_call_def)
qed

theorem saveAnalysis_unknown_id_noop_witness:
  "''42'' \<notin> set (map Car.id analysed_once) \<and>
   saveAnalysis_call 1700000120000 ''42'' ''[2]'' analysed_once = (Inr (), analysed_once)"
proof -
  have h: "\<forall>c \<in> set analysed_once. Car.id c \<noteq> ''42''" by (simp add: analysed_once_def)
  have m: "''42'' \<notin> set (map Car.id analysed_once)" by (simp add: analysed_once_def)
  show ?thesis using m saveAnalysis_unknown_id_noop [OF h] by simp
qed

section \<open>The repository: ids\<close>

text \<open>
  The decimal rendering is injective, so the ids of two new cars are equal exactly when
  the clock showed the same reading at both calls.
\<close>

lemma digit_char_inj:
  assumes "d < 10" and "e < 10" and "digit_char d = digit_char e"
  shows "d = e"
proof -
  have cases: "n < 10 \<Longrightarrow> n \<in> {0, 1, 2, 3, 4, 5, 6, 7, 8, 9}" for n :: nat by auto
  from cases [OF assms(1)] cases [OF assms(2)] assms(3) show ?thesis
    by (auto simp: digit_char_def)
qed

lemma toString_length: "Suc 0 \<le> length (toString n)"
  by (subst toString.simps) simp

lemma toString_inj: "toString m = toString n \<Longrightarrow> m = n"
proof (induction m arbitrary: n rule: toString.induct)
  case (1 m)
  show ?case
  proof (cases "m < 10")
    case m: True
    show ?thesis
    proof (cases "n < 10")
      case True
      with m "1.prems" show ?thesis by (simp add: toString_digit digit_char_inj)
    next
      case False
      have "length (toString m) = 1" using m by (simp add: toString_digit)
      with "1.prems" have "length (toString n) = 1" by simp
      moreover have "2 \<le> length (toString n)"
        using False toString_length [of "n div 10"] by (simp add: toString_step)
      ultimately show ?thesis by simp
    qed
  next
    case m: False
    show ?thesis
    proof (cases "n < 10")
      case True
      then have "length (toString n) = 1" by (simp add: toString_digit)
      with "1.prems" have "length (toString m) = 1" by simp
      moreover have "2 \<le> length (toString m)"
        using m toString_length [of "m div 10"] by (simp add: toString_step)
      ultimately show ?thesis by simp
    next
      case False
      with m "1.prems" have eq: "toString (m div 10) = toString (n div 10)"
        and dg: "digit_char (m mod 10) = digit_char (n mod 10)"
        by (simp_all add: toString_step)
      from "1.IH" [OF m eq] have "m div 10 = n div 10" .
      moreover from dg have "m mod 10 = n mod 10" by (simp add: digit_char_inj)
      ultimately show ?thesis by (metis div_mult_mod_eq)
    qed
  qed
qed

lemma addCar_ids_equal_iff:
  "fst (addCar now1 d1 cars1) = fst (addCar now2 d2 cars2) \<longleftrightarrow> now1 = now2"
  by (auto simp: addCar_def newCar_def dest: toString_inj)

text \<open>
  Claim C9. The id of a new car is the clock reading in milliseconds, so two cars added
  at the same reading get the same id: the two records below, made by two calls of
  \<open>addCar\<close>, are not told apart by their ids.
\<close>

theorem addCar_same_clock_same_id:
  "map Car.id (run [AddCar 1700000000000 toyota, AddCar 1700000000000 honda] [])
     = [''1700000000000'', ''1700000000000'']"
  by (simp add: addCar_def newCar_def toString_eval)

section \<open>The repository: the duplicate of the latest results\<close>

lemma results_last_update:
  assumes "rs \<noteq> []"
  shows "results (last (rs[length rs - Suc 0 := (rs ! (length rs - Suc 0))\<lparr> comparison := c \<rparr>]))
         = results (last rs)"
  using assms by (simp add: last_list_update last_conv_nth)

lemma latestResultsInv_updateLatest:
  assumes "latestResultsInv cars"
  shows "latestResultsInv (updateLatestReportComparison i cmp cars)"
  unfolding latestResultsInv_def
proof
  fix car' assume "car' \<in> set (updateLatestReportComparison i cmp cars)"
  then obtain car where car: "car \<in> set cars" and car': "car' =
       (case Car.reports car of
          None \<Rightarrow> car
        | Some rs \<Rightarrow>
            if Car.id car = i \<and> length rs > 0 then
              (let lastIndex = length rs - 1;
                   newReports = rs[lastIndex := (rs ! lastIndex)\<lparr> comparison := Some cmp \<rparr>]
               in car\<lparr> Car.reports := Some newReports \<rparr>)
            else car)"
    by (auto simp: updateLatestReportComparison_def)
  from assms car have inv: "existingReports car \<noteq> [] \<longrightarrow>
        Car.analysisResults car = Some (results (last (existingReports car)))"
    by (simp add: latestResultsInv_def)
  show "existingReports car' \<noteq> [] \<longrightarrow>
        Car.analysisResults car' = Some (results (last (existingReports car')))"
  proof (cases "Car.reports car")
    case None
    then show ?thesis using inv car' by simp
  next
    case (Some rs)
    show ?thesis
    proof (cases "Car.id car = i \<and> length rs > 0")
      case True
      then have "rs \<noteq> []" by auto
      then show ?thesis using inv car' Some True
        by (simp add: existingReports_def Let_def results_last_update)
    next
      case False
      then show ?thesis using inv car' Some by auto
    qed
  qed
qed

text \<open>
  Claim C10. Every operation of the repository keeps the invariant that a car with a
  non-empty list of reports has, in its field \<open>analysisResults\<close>, the results of its last
  report.
\<close>

theorem operations_keep_latest_results:
  assumes "latestResultsInv cars"
  shows "latestResultsInv (apply_op op cars)"
proof (cases op)
  case (AddCar now carData)
  then show ?thesis using assms
    by (auto simp: latestResultsInv_def addCar_def newCar_def existingReports_def)
next
  case (UpdateCarPhotos i ps)
  then show ?thesis using assms
    by (auto simp: latestResultsInv_def updateCarPhotos_def existingReports_def)
next
  case (SaveAnalysis now i res)
  then show ?thesis using assms
    by (auto simp: latestResultsInv_def saveAnalysis_def existingReports_def newReport_def)
next
  case (UpdateLatestReportComparison i cmp)
  then show ?thesis using assms by (simp add: latestResultsInv_updateLatest)
next
  case (RemoveCar i)
  then show ?thesis using assms by (auto simp: latestResultsInv_def removeCar_def)
next
  case ClearAllCars
  then show ?thesis by (simp add: latestResultsInv_def clearAllCars_def)
qed

theorem operations_keep_latest_results_witness:
  "latestResultsInv analysed_once \<and>
   latestResultsInv (apply_op (SaveAnalysis 1700000120000 ''1700000000000'' ''[2]'') analysed_once) \<and>
   Car.analysisResults
     (hd (apply_op (SaveAnalysis 1700000120000 ''1700000000000'' ''[2]'') analysed_once))
     = Some ''[2]''"
proof -
  have h: "latestResultsInv analysed_once"
    by (simp add: latestResultsInv_def analysed_once_def existingReports_def)
  show ?thesis
    using h operations_keep_latest_results
              [OF h, of "SaveAnalysis 1700000120000 ''1700000000000'' ''[2]''"]
    by (simp add: analysed_once_def saveAnalysis_def)
qed

section \<open>The stage differ\<close>

text \<open>The loop visits the slots in order and collects one entry for each.\<close>

lemma compareLoop_eq:
  "compareLoop oldResults newResults maxLen i (acc, df) =
     (acc @ map (angleDiffAt oldResults newResults) [i..<maxLen],
      df \<or> (\<exists>j \<in> set [i..<maxLen]. changes (angleDiffAt oldResults newResults j) \<noteq> []))"
proof (induction "maxLen - i" arbitrary: i acc df)
  case 0
  then show ?case by (simp add: compareLoop.simps)
next
  case (Suc n)
  then have lt: "i < maxLen" and n: "n = maxLen - (i + 1)" by simp_all
  have "compareLoop oldResults newResults maxLen i (acc, df) =
        compareLoop oldResults newResults maxLen (i + 1)
          (acc @ [angleDiffAt oldResults newResults i],
           if length (changes (angleDiffAt oldResults newResults i)) > 0 then True else df)"
    using lt by (subst compareLoop.simps) (simp add: Let_def)
  also have "\<dots> =
        ((acc @ [angleDiffAt oldResults newResults i])
           @ map (angleDiffAt oldResults newResults) [i + 1..<maxLen],
         (if length (changes (angleDiffAt oldResults newResults i)) > 0 then True else df)
           \<or> (\<exists>j \<in> set [i + 1..<maxLen]. changes (angleDiffAt oldResults newResults j) \<noteq> []))"
    by (rule Suc.hyps(1) [OF n])
  also have "\<dots> =
        (acc @ map (angleDiffAt oldResults newResults) [i..<maxLen],
         df \<or> (\<exists>j \<in> set [i..<maxLen]. changes (angleDiffAt oldResults newResults j) \<noteq> []))"
    using lt by (auto simp: upt_conv_Cons)
  finally show ?case .
qed

lemma index_angleDiffAt: "index (angleDiffAt oldResults newResults j) = j"
  by (simp add: angleDiffAt_def Let_def)

lemma changes_angleDiffAt:
  "changes (angleDiffAt oldResults newResults j)
     = angleChanges (elemAt oldResults j) (elemAt newResults j)"
  by (simp add: angleDiffAt_def Let_def)

lemma hasChanges_angleDiffAt:
  "hasChanges (angleDiffAt oldResults newResults j)
     \<longleftrightarrow> angleChanges (elemAt oldResults j) (elemAt newResults j) \<noteq> []"
  by (simp add: angleDiffAt_def Let_def)

lemma compareStructuredReports_eq:
  "compareStructuredReports oldResults newResults =
     \<lparr> summary =
         (if \<exists>j < max (length oldResults) (length newResults).
               angleChanges (elemAt oldResults j) (elemAt newResults j) \<noteq> []
          then ''Differences detected between reports.''
          else ''No significant structural differences.''),
       angles = filter hasChanges (map (angleDiffAt oldResults newResults)
                  [0..<max (length oldResults) (length newResults)]),
       overallConfirm =
         (\<exists>j < max (length oldResults) (length newResults).
               angleChanges (elemAt oldResults j) (elemAt newResults j) \<noteq> []) \<rparr>"
proof -
  have ex: "(\<exists>j \<in> {0..<n}. changes (angleDiffAt oldResults newResults j) \<noteq> [])
        \<longleftrightarrow> (\<exists>j < n. angleChanges (elemAt oldResults j) (elemAt newResults j) \<noteq> [])" for n
    by (auto simp: changes_angleDiffAt)
  show ?thesis
    by (simp add: compareStructuredReports_def compareLoop_eq ex Let_def)
qed

lemma filter_eq_upt: "i < n \<Longrightarrow> filter (\<lambda>j. j = i) [0..<n] = [i]"
proof (induction n)
  case 0
  then show ?case by simp
next
  case (Suc n)
  show ?case
  proof (cases "i = n")
    case True
    have "filter (\<lambda>j. j = n) [0..<n] = []" by (simp add: filter_empty_conv)
    with True show ?thesis by simp
  next
    case False
    with Suc show ?thesis by simp
  qed
qed

lemma slot_entries:
  assumes "i < max (length oldResults) (length newResults)"
  shows "filter (\<lambda>d. index d = i) (angles (compareStructuredReports oldResults newResults))
         = (if angleChanges (elemAt oldResults i) (elemAt newResults i) = [] then []
            else [angleDiffAt oldResults newResults i])"
proof -
  let ?f = "angleDiffAt oldResults newResults"
  let ?n = "max (length oldResults) (length newResults)"
  have "filter (\<lambda>d. index d = i) (angles (compareStructuredReports oldResults newResults))
        = filter hasChanges (filter (\<lambda>d. index d = i) (map ?f [0..<?n]))"
    by (simp add: compareStructuredReports_eq conj_commute)
  also have "filter (\<lambda>d. index d = i) (map ?f [0..<?n]) = map ?f (filter (\<lambda>j. j = i) [0..<?n])"
    by (simp add: filter_map o_def index_angleDiffAt)
  also have "\<dots> = [?f i]"
    using assms by (simp add: filter_eq_upt)
  finally show ?thesis
    by (simp add: hasChanges_angleDiffAt)
qed

lemma slot_changes:
  assumes "i < max (length oldResults) (length newResults)"
  shows "concat (map changes (filter (\<lambda>d. index d = i)
           (angles (compareStructuredReports oldResults newResults))))
         = angleChanges (elemAt oldResults i) (elemAt newResults i)"
  using slot_entries [OF assms] by (simp add: changes_angleDiffAt)

text \<open>
  Claim C3. At an index where both arrays have an element, the changes that the differ
  returns for that slot are all of type changed, name each field at most once, and name
  exactly those of Severity, Damage Type, Description and Has Damage whose values in the
  old and the new element differ; the change for Has Damage holds Yes or No for the old
  and the new value. Two elements that differ in other fields only yield no change.
\<close>

theorem differ_compares_four_fields:
  assumes "i < length oldResults" and "i < length newResults"
  shows "let a = oldResults ! i; b = newResults ! i;
             cs = concat (map changes (filter (\<lambda>d. index d = i)
                    (angles (compareStructuredReports oldResults newResults))))
         in (\<forall>c \<in> set cs. type c = changed)
          \<and> distinct (map field cs)
          \<and> set (map field cs) =
              {f. f = ''Severity'' \<and> severity a \<noteq> severity b
                \<or> f = ''Damage Type'' \<and> damageType a \<noteq> damageType b
                \<or> f = ''Description'' \<and> description a \<noteq> description b
                \<or> f = ''Has Damage'' \<and> hasDamage a \<noteq> hasDamage b}
          \<and> (\<forall>c \<in> set cs. field c = ''Has Damage'' \<longrightarrow>
                oldValue c = Str (if hasDamage a then ''Yes'' else ''No'') \<and>
                newValue c = Str (if hasDamage b then ''Yes'' else ''No''))"
proof -
  have "i < max (length oldResults) (length newResults)" using assms by simp
  then have cs: "concat (map changes (filter (\<lambda>d. index d = i)
           (angles (compareStructuredReports oldResults newResults))))
         = angleChanges (Some (oldResults ! i)) (Some (newResults ! i))"
    using assms by (simp add: slot_changes elemAt_def)
  show ?thesis
    unfolding Let_def cs by (auto simp: yesNo_def)
qed

theorem differ_compares_four_fields_witness:
  "2 < length stage1 \<and> 2 < length stage2 \<and>
   map field (concat (map changes (filter (\<lambda>d. index d = 2)
       (angles (compareStructuredReports stage1 stage2)))))
     = [''Severity'', ''Damage Type'', ''Description'', ''Has Damage'']"
proof -
  have h1: "2 < length stage1" and h2: "2 < length stage2"
    by (simp_all add: stage1_def stage2_def)
  have cs: "concat (map changes (filter (\<lambda>d. index d = 2)
       (angles (compareStructuredReports stage1 stage2))))
     = angleChanges (Some clean) (Some dented)"
    by (simp add: slot_changes stage1_def stage2_def elemAt_def)
  show ?thesis
    using h1 h2 differ_compares_four_fields [OF h1 h2]
    unfolding cs by (simp add: clean_def dented_def)
qed

text \<open>
  Claim C4. The list of angles returned holds, in slot order, exactly the entries of the
  slots whose \<open>hasChanges\<close> is true, which are the slots with at least one change; the
  summary is the one fixed string when some slot has a change and the other fixed string
  otherwise; and \<open>overallConfirm\<close> is true exactly when some slot has a change.
\<close>

theorem differ_output:
  "angles (compareStructuredReports oldResults newResults)
     = filter hasChanges (map (angleDiffAt oldResults newResults)
                            [0..<max (length oldResults) (length newResults)])
   \<and> (\<forall>d \<in> set (angles (compareStructuredReports oldResults newResults)). hasChanges d)
   \<and> (\<forall>i < max (length oldResults) (length newResults).
         hasChanges (angleDiffAt oldResults newResults i)
           \<longleftrightarrow> angleChanges (elemAt oldResults i) (elemAt newResults i) \<noteq> [])
   \<and> summary (compareStructuredReports oldResults newResults)
       = (if \<exists>i < max (length oldResults) (length newResults).
               angleChanges (elemAt oldResults i) (elemAt newResults i) \<noteq> []
          then ''Differences detected between reports.''
          else ''No significant structural differences.'')
   \<and> (overallConfirm (compareStructuredReports oldResults newResults)
        \<longleftrightarrow> (\<exists>i < max (length oldResults) (length newResults).
               angleChanges (elemAt oldResults i) (elemAt newResults i) \<noteq> []))"
  unfolding compareStructuredReports_eq by (simp add: hasChanges_angleDiffAt)

lemma stage12_changed:
  "\<exists>i < max (length stage1) (length stage2).
      angleChanges (elemAt stage1 i) (elemAt stage2 i) \<noteq> []"
  by (rule exI [of _ 2]) (simp add: stage1_def stage2_def elemAt_def clean_def dented_def)

theorem differ_output_witness:
  "map index (angles (compareStructuredReports stage1 stage2)) = [2]
   \<and> map AngleDiff.label (angles (compareStructuredReports stage1 stage2)) = [''Left Side'']
   \<and> StructuredDiffSummary.summary (compareStructuredReports stage1 stage2)
       = ''Differences detected between reports.''
   \<and> overallConfirm (compareStructuredReports stage1 stage2)"
proof -
  have n: "[0..<max (length stage1) (length stage2)] = [0, 1, 2]"
    by (simp add: stage1_def stage2_def upt_rec)
  have a: "filter hasChanges (map (angleDiffAt stage1 stage2) [0, 1, 2])
           = [angleDiffAt stage1 stage2 2]"
    by (simp add: hasChanges_angleDiffAt stage1_def stage2_def elemAt_def clean_def dented_def)
  show ?thesis
    using differ_output [of stage1 stage2] stage12_changed
    unfolding n a
    by (simp add: angleDiffAt_def Let_def slotLabel_def PHOTO_CONFIG_def elemAt_def)
qed

text \<open>
  Claim C5. Comparing an array of analysis results with itself returns no angles and
  \<open>overallConfirm\<close> false.
\<close>

theorem differ_identical:
  "angles (compareStructuredReports x x) = []
   \<and> overallConfirm (compareStructuredReports x x) = False"
proof -
  have same: "angleChanges (elemAt x i) (elemAt x i) = []" for i
    by (simp add: elemAt_def)
  show ?thesis
    by (simp add: compareStructuredReports_eq hasChanges_angleDiffAt same)
qed

theorem differ_identical_witness:
  "angles (compareStructuredReports stage2 stage2) = []
   \<and> \<not> overallConfirm (compareStructuredReports stage2 stage2)"
  using differ_identical [of stage2] by simp

section \<open>Damage statistics and rejected photos\<close>

text \<open>
  The report screen keeps a result whose \<open>imageComplete\<close> is false out of its lists of
  damaged and of clean photos.
\<close>

lemma screen_lists_exclude_rejected:
  assumes "\<not> imageComplete r"
  shows "(r, i) \<notin> set (damagedPhotos rs)" and "(r, i) \<notin> set (cleanPhotos rs)"
  using assms by (auto simp: damagedPhotos_def cleanPhotos_def)

text \<open>
  Claim C6. A result with \<open>imageComplete\<close> false is to be left out of the damage
  statistics. \<open>generateDamageReport\<close> does not look at \<open>imageComplete\<close>: for a clean
  photo followed by a rejected photo on which damage was reported, it counts the
  rejected photo as damaged and takes its severity into the average, while the report
  screen lists the same photo as rejected and not as damaged.
\<close>

theorem generateDamageReport_counts_rejected:
  "generateDamageReport [clean, wrongAngle] =
     \<lparr> totalImages = 2, damageCount = 1, averageSeverity = ''severe'',
       DamageReport.summary = ''Damage detected in 1/2 photos. Average severity: severe'' \<rparr>
   \<and> damagedPhotos [clean, wrongAngle] = []
   \<and> rejectedPhotos [clean, wrongAngle] = [(wrongAngle, 1)]"
  by (simp add: generateDamageReport_def damagedPhotos_def rejectedPhotos_def indexed_def
        clean_def wrongAngle_def roundDiv_def toString_eval upt_rec Let_def)

section \<open>Photo-quality scoring\<close>

text \<open>The metadata are fixed, so the analysis of the image quality is one value.\<close>

lemma analyzeImageQuality_eq:
  "analyzeImageQuality imageUri =
     \<lparr> isRealPhoto = True, ImageQuality.quality = 80,
       details = \<lparr> resolution = high, hasContent = True, sizeIndicator = ''normal'' \<rparr> \<rparr>"
  by (simp add: analyzeImageQuality_def getImageMetadata_def)

lemma checkFraming_score: "FramingCheck.score (checkFraming imageUri) = 24"
  by (simp add: checkFraming_def analyzeImageQuality_eq)

lemma checkLighting_score: "LightingCheck.score (checkLighting imageUri r) \<in> {8, 12, 24}"
  by (simp add: checkLighting_def Let_def)

lemma checkQuality_score: "QualityCheck.score (checkQuality imageUri r) \<in> {5, 10, 24}"
  by (simp add: checkQuality_def Let_def analyzeImageQuality_eq)

lemma detectCar_wrong_angle:
  assumes "expected \<noteq> None" and "Some (detectAngle imageUri ra) \<noteq> expected"
  shows "detectCar imageUri expected ra rb rq =
        \<lparr> carDetected = False, angle = None, angleScore = 0,
          framing = None, lighting = None, DetectionResult.quality = None,
          totalScore = 0, isAccepted = False,
          DetectionResult.hint = ''Wrong angle! Expected '' @ angleNames (the expected)
                 @ '', but detected '' @ angleNames (detectAngle imageUri ra)
                 @ ''. Please take a photo from the correct angle.'' \<rparr>"
  using assms by (simp add: detectCar_def analyzeImageQuality_eq Let_def)

lemma detectCar_right_angle:
  assumes "expected = None \<or> expected = Some (detectAngle imageUri ra)"
  shows "angleScore (detectCar imageUri expected ra rb rq) = 25"
    and "framing (detectCar imageUri expected ra rb rq) = Some (checkFraming imageUri)"
    and "lighting (detectCar imageUri expected ra rb rq) = Some (checkLighting imageUri rb)"
    and "DetectionResult.quality (detectCar imageUri expected ra rb rq)
           = Some (checkQuality imageUri rq)"
    and "totalScore (detectCar imageUri expected ra rb rq)
           = 25 + FramingCheck.score (checkFraming imageUri)
             + LightingCheck.score (checkLighting imageUri rb)
             + QualityCheck.score (checkQuality imageUri rq)"
    and "isAccepted (detectCar imageUri expected ra rb rq)
           \<longleftrightarrow> totalScore (detectCar imageUri expected ra rb rq) \<ge> 65"
  using assms by (auto simp: detectCar_def analyzeImageQuality_eq Let_def QUALITY_THRESHOLD_def)

text \<open>
  Claim C8. For every image, expected angle and draws: when no angle is expected or the
  detected angle is the expected one, \<open>detectCar\<close> gives 25 points for the angle, returns
  the results of \<open>checkFraming\<close>, of \<open>checkLighting\<close> on the brightness draw and of
  \<open>checkQuality\<close> on the blur draw, and its total score is 25 plus the scores of these
  three checks; otherwise it gives 0 points for the angle, runs none of the three checks
  and its total score is 0. The score of each of the three checks is at most 25, each
  computed from its own draw alone. In both cases the total is at most 100, it is the sum
  of the angle score and the three scores in the result (a check that was not run counts
  as 0), and the photo is accepted exactly when the total is at least 65.
\<close>

theorem detectCar_score:
  "(if expected = None \<or> expected = Some (detectAngle imageUri ra) then
      angleScore (detectCar imageUri expected ra rb rq) = 25
      \<and> framing (detectCar imageUri expected ra rb rq) = Some (checkFraming imageUri)
      \<and> lighting (detectCar imageUri expected ra rb rq) = Some (checkLighting imageUri rb)
      \<and> DetectionResult.quality (detectCar imageUri expected ra rb rq)
          = Some (checkQuality imageUri rq)
      \<and> totalScore (detectCar imageUri expected ra rb rq)
          = 25 + FramingCheck.score (checkFraming imageUri)
            + LightingCheck.score (checkLighting imageUri rb)
            + QualityCheck.score (checkQuality imageUri rq)
    else
      angleScore (detectCar imageUri expected ra rb rq) = 0
      \<and> framing (detectCar imageUri expected ra rb rq) = None
      \<and> lighting (detectCar imageUri expected ra rb rq) = None
      \<and> DetectionResult.quality (detectCar imageUri expected ra rb rq) = None
      \<and> totalScore (detectCar imageUri expected ra rb rq) = 0)
   \<and> FramingCheck.score (checkFraming imageUri) \<le> 25
   \<and> LightingCheck.score (checkLighting imageUri rb) \<le> 25
   \<and> QualityCheck.score (checkQuality imageUri rq) \<le> 25
   \<and> totalScore (detectCar imageUri expected ra rb rq) \<le> 100
   \<and> totalScore (detectCar imageUri expected ra rb rq)
       = angleScore (detectCar imageUri expected ra rb rq)
         + framingScore (detectCar imageUri expected ra rb rq)
         + lightingScore (detectCar imageUri expected ra rb rq)
         + qualityScore (detectCar imageUri expected ra rb rq)
   \<and> angleScore (detectCar imageUri expected ra rb rq)
       = (if expected = None \<or> expected = Some (detectAngle imageUri ra) then 25 else 0)
   \<and> framingScore (detectCar imageUri expected ra rb rq) \<le> 25
   \<and> lightingScore (detectCar imageUri expected ra rb rq) \<le> 25
   \<and> qualityScore (detectCar imageUri expected ra rb rq) \<le> 25
   \<and> (isAccepted (detectCar imageUri expected ra rb rq)
        \<longleftrightarrow> totalScore (detectCar imageUri expected ra rb rq) \<ge> 65)"
proof -
  have f: "FramingCheck.score (checkFraming imageUri) = 24" by (rule checkFraming_score)
  have l: "LightingCheck.score (checkLighting imageUri rb) \<le> 24"
    using checkLighting_score [of imageUri rb] by auto
  have q: "QualityCheck.score (checkQuality imageUri rq) \<le> 24"
    using checkQuality_score [of imageUri rq] by auto
  show ?thesis
  proof (cases "expected = None \<or> expected = Some (detectAngle imageUri ra)")
    case False
    then have "expected \<noteq> None" and "Some (detectAngle imageUri ra) \<noteq> expected" by auto
    then show ?thesis using False f l q
      by (simp add: detectCar_wrong_angle framingScore_def lightingScore_def qualityScore_def)
  next
    case True
    note sel = detectCar_right_angle [OF True, of rb rq]
    show ?thesis
      using True f l q by (simp add: sel framingScore_def lightingScore_def qualityScore_def)
  qed
qed

text \<open>
  Three photos: one in good light and sharp (24 + 24 + 24 on top of the 25), one in low
  light with motion blur (24 + 12 + 10), and one taken from the wrong side.
\<close>

theorem detectCar_score_witness:
  "totalScore (detectCar ''file:///front.jpg'' (Some Front) (1/4) (1/2) (1/5)) = 97
   \<and> isAccepted (detectCar ''file:///front.jpg'' (Some Front) (1/4) (1/2) (1/5))
   \<and> lightingScore (detectCar ''file:///front.jpg'' (Some Front) (1/4) (1/10) (3/5)) = 12
   \<and> qualityScore (detectCar ''file:///front.jpg'' (Some Front) (1/4) (1/10) (3/5)) = 10
   \<and> totalScore (detectCar ''file:///front.jpg'' (Some Front) (1/4) (1/10) (3/5)) = 71
   \<and> isAccepted (detectCar ''file:///front.jpg'' (Some Front) (1/4) (1/10) (3/5))
   \<and> totalScore (detectCar ''file:///front.jpg'' (Some Rear) (1/4) (1/2) (1/5)) = 0
   \<and> \<not> isAccepted (detectCar ''file:///front.jpg'' (Some Rear) (1/4) (1/2) (1/5))"
proof -
  have a: "detectAngle ''file:///front.jpg'' (1/4) = Front"
    by (simp add: detectAngle_def analyzeImageQuality_eq Let_def)
  have l1: "LightingCheck.score (checkLighting ''file:///front.jpg'' (1/2)) = 24"
    and l2: "LightingCheck.score (checkLighting ''file:///front.jpg'' (1/10)) = 12"
    by (simp_all add: checkLighting_def analyzeBrightness_def Let_def)
  have q1: "QualityCheck.score (checkQuality ''file:///front.jpg'' (1/5)) = 24"
    and q2: "QualityCheck.score (checkQuality ''file:///front.jpg'' (3/5)) = 10"
    by (simp_all add: checkQuality_def analyzeBlur_def analyzeImageQuality_eq Let_def)
  show ?thesis
    using detectCar_score [of "Some Front" "''file:///front.jpg''" "1/4" "1/2" "1/5"]
          detectCar_score [of "Some Front" "''file:///front.jpg''" "1/4" "1/10" "3/5"]
          detectCar_score [of "Some Rear" "''file:///front.jpg''" "1/4" "1/2" "1/5"]
    by (simp add: a l1 l2 q1 q2 checkFraming_score
          framingScore_def lightingScore_def qualityScore_def)
qed

end
